theory Spec2Isabelle
  imports Main "HOL-Library.Word" "HOL-Library.AList"
begin

unbundle bit_operations_syntax

section \<open>JavaScript values\<close>

text \<open>
  A JavaScript string is a sequence of 16-bit code units. \<open>str\<close> writes a string
  literal of the source (all of them ASCII) as such a sequence.
\<close>

type_synonym jsstring = "16 word list"

definition str :: "string \<Rightarrow> jsstring" where
  "str s = map (\<lambda>c. of_nat (of_char c)) s"

text \<open>
  The values the adapter handles. Numbers are kept abstract (type \<open>'n\<close>): the adapter
  never computes with a stored number, it only passes it on. An object is the list of its
  own properties in insertion order; \<open>AList.update\<close> is the assignment \<open>o[k] = v\<close>.
\<close>

datatype 'n jsvalue =
    JUndefined
  | JNull
  | JBool bool
  | JNum 'n
  | JStr jsstring
  | JArr "'n jsvalue list"
  | JObj "(jsstring \<times> 'n jsvalue) list"

type_synonym 'n obj = "(jsstring \<times> 'n jsvalue) list"

datatype error =
    TypeError
  | NoDataError
  | CipherError
  | MongoError
  | CapabilityUnsupportedError

text \<open>\<open>typeof v === 'object' && v !== null\<close>\<close>

fun is_object :: "'n jsvalue \<Rightarrow> bool" where
  "is_object (JObj _) = True"
| "is_object (JArr _) = True"
| "is_object _ = False"

text \<open>
  \<open>const { operator, value } = condition\<close>: destructuring \<open>null\<close> or \<open>undefined\<close>
  throws, a property that is not there reads as \<open>undefined\<close>.
\<close>

definition lookup :: "'n obj \<Rightarrow> jsstring \<Rightarrow> 'n jsvalue" where
  "lookup kvs k = (case map_of kvs k of Some v \<Rightarrow> v | None \<Rightarrow> JUndefined)"

fun destructure :: "'n jsvalue \<Rightarrow> error + ('n jsvalue \<times> 'n jsvalue)" where
  "destructure JUndefined = Inl TypeError"
| "destructure JNull = Inl TypeError"
| "destructure (JObj kvs) = Inr (lookup kvs (str ''operator''), lookup kvs (str ''value''))"
| "destructure _ = Inr (JUndefined, JUndefined)"

text \<open>A parameter default \<open>p = d\<close> applies when the argument is \<open>undefined\<close>.\<close>

definition default_arg :: "'n jsvalue \<Rightarrow> 'n jsvalue \<Rightarrow> 'n jsvalue" where
  "default_arg d v = (if v = JUndefined then d else v)"

section \<open>The query builder (class CosmosQueryBuilder)\<close>

record 'n CosmosQueryBuilder =
  collectionName :: jsstring
  filters :: "'n obj"
  orConditions :: "'n obj list option"
  orderField :: "jsstring option"
  orderDirection :: int
  limitCount :: "int option"
  offsetCount :: int
  selectFields :: "jsstring list option"

text \<open>
  The constructor; \<open>orConditions\<close> is not set by it (\<open>None\<close> is \<open>undefined\<close>),
  \<open>null\<close> fields are \<open>None\<close>.
\<close>

definition table :: "jsstring \<Rightarrow> 'n CosmosQueryBuilder" where
  "table name =
     \<lparr> collectionName = name, filters = [], orConditions = None, orderField = None,
       orderDirection = 1, limitCount = None, offsetCount = 0, selectFields = None \<rparr>"

fun condition :: "'n jsvalue \<Rightarrow> 'n jsvalue \<Rightarrow> 'n jsvalue" where
  "condition operator value = JObj [(str ''operator'', operator), (str ''value'', value)]"

text \<open>
  The ways \<open>where\<close> and \<open>orWhere\<close> are called: with an object, or with a field name
  and one to three arguments in all (\<open>arguments.length\<close>).
\<close>

datatype 'n where_args =
    WhereObject "'n obj"
  | Where1 jsstring
  | Where2 jsstring "'n jsvalue"
  | Where3 jsstring "'n jsvalue" "'n jsvalue"

text \<open>\<open>Object.assign(target, source)\<close>\<close>

definition assign :: "'n obj \<Rightarrow> 'n obj \<Rightarrow> 'n obj" where
  "assign target source = fold (\<lambda>(k, v). AList.update k v) source target"

fun where' :: "'n where_args \<Rightarrow> 'n CosmosQueryBuilder \<Rightarrow> 'n CosmosQueryBuilder" where
  "where' (WhereObject entries) b = b\<lparr>filters := assign (filters b) entries\<rparr>"
| "where' (Where2 field operator) b =
     b\<lparr>filters := AList.update field
        (condition (JStr (str ''='')) (default_arg (JStr (str ''='')) operator)) (filters b)\<rparr>"
| "where' (Where1 field) b =
     b\<lparr>filters := AList.update field (condition (JStr (str ''='')) JNull) (filters b)\<rparr>"
| "where' (Where3 field operator value) b =
     b\<lparr>filters := AList.update field
        (condition (default_arg (JStr (str ''='')) operator) (default_arg JNull value))
        (filters b)\<rparr>"

text \<open>\<open>Array.isArray(values) && values.length > 0\<close>\<close>

fun nonempty_array :: "'n jsvalue \<Rightarrow> bool" where
  "nonempty_array (JArr (x # xs)) = True"
| "nonempty_array _ = False"

definition whereIn :: "jsstring \<Rightarrow> 'n jsvalue \<Rightarrow> 'n CosmosQueryBuilder \<Rightarrow> 'n CosmosQueryBuilder" where
  "whereIn field values b =
     (if nonempty_array values
      then b\<lparr>filters := AList.update field (condition (JStr (str ''in'')) values) (filters b)\<rparr>
      else b)"

definition whereNotIn :: "jsstring \<Rightarrow> 'n jsvalue \<Rightarrow> 'n CosmosQueryBuilder \<Rightarrow> 'n CosmosQueryBuilder" where
  "whereNotIn field values b =
     (if nonempty_array values
      then b\<lparr>filters := AList.update field (condition (JStr (str ''not-in'')) values) (filters b)\<rparr>
      else b)"


definition whereNull :: "jsstring \<Rightarrow> 'n CosmosQueryBuilder \<Rightarrow> 'n CosmosQueryBuilder" where
  "whereNull field b =
     b\<lparr>filters := AList.update field (JObj [(str ''operator'', JStr (str ''null''))]) (filters b)\<rparr>"

definition whereNotNull :: "jsstring \<Rightarrow> 'n CosmosQueryBuilder \<Rightarrow> 'n CosmosQueryBuilder" where
  "whereNotNull field b =
     b\<lparr>filters := AList.update field (JObj [(str ''operator'', JStr (str ''not-null''))]) (filters b)\<rparr>"


definition push :: "'n obj \<Rightarrow> 'n CosmosQueryBuilder \<Rightarrow> 'n CosmosQueryBuilder" where
  "push c b = b\<lparr>orConditions := Some ((case orConditions b of None \<Rightarrow> [] | Some cs \<Rightarrow> cs) @ [c])\<rparr>"

fun orWhere :: "'n where_args \<Rightarrow> 'n CosmosQueryBuilder \<Rightarrow> 'n CosmosQueryBuilder" where
  "orWhere (WhereObject entries) b = push entries b"
| "orWhere (Where2 field operator) b =
     push [(field, condition (JStr (str ''='')) (default_arg (JStr (str ''='')) operator))] b"
| "orWhere (Where1 field) b = push [(field, condition (JStr (str ''='')) JNull)] b"
| "orWhere (Where3 field operator value) b =
     push [(field, condition (default_arg (JStr (str ''='')) operator) (default_arg JNull value))] b"

text \<open>
  \<open>orderBy(field, direction)\<close>; the argument \<open>desc\<close> is the outcome of the test
  \<open>direction.toUpperCase() === 'DESC'\<close>.
\<close>

definition orderBy :: "jsstring \<Rightarrow> bool \<Rightarrow> 'n CosmosQueryBuilder \<Rightarrow> 'n CosmosQueryBuilder" where
  "orderBy field desc b = b\<lparr>orderField := Some field, orderDirection := (if desc then - 1 else 1)\<rparr>"

definition orderByDesc :: "jsstring \<Rightarrow> 'n CosmosQueryBuilder \<Rightarrow> 'n CosmosQueryBuilder" where
  "orderByDesc field b = orderBy field True b"

definition orderByAsc :: "jsstring \<Rightarrow> 'n CosmosQueryBuilder \<Rightarrow> 'n CosmosQueryBuilder" where
  "orderByAsc field b = orderBy field False b"

text \<open>\<open>limit(count, offset = null)\<close>, \<open>take(count)\<close> and \<open>skip(offset)\<close>\<close>

definition limit :: "int \<Rightarrow> int option \<Rightarrow> 'n CosmosQueryBuilder \<Rightarrow> 'n CosmosQueryBuilder" where
  "limit n offset b =
     (case offset of
        None \<Rightarrow> b\<lparr>limitCount := Some n\<rparr>
      | Some k \<Rightarrow> b\<lparr>limitCount := Some n, offsetCount := k\<rparr>)"

definition take' :: "int \<Rightarrow> 'n CosmosQueryBuilder \<Rightarrow> 'n CosmosQueryBuilder" where
  "take' n b = limit n None b"

definition skip :: "int \<Rightarrow> 'n CosmosQueryBuilder \<Rightarrow> 'n CosmosQueryBuilder" where
  "skip k b = b\<lparr>offsetCount := k\<rparr>"

section \<open>Compiling the filters (\<open>_buildMongoQuery\<close>)\<close>

text \<open>The decimal numeral of an array index, as a property key.\<close>

fun decimal :: "nat \<Rightarrow> jsstring" where
  "decimal n = (if n < 10 then [of_nat (48 + n)] else decimal (n div 10) @ [of_nat (48 + n mod 10)])"

text \<open>
  \<open>value[i]\<close>: reading an index of \<open>null\<close> or \<open>undefined\<close> throws; an array and a
  string answer with the element or \<open>undefined\<close>, an object with its property of that
  name, any other value with \<open>undefined\<close>.
\<close>

fun js_index :: "'n jsvalue \<Rightarrow> nat \<Rightarrow> error + 'n jsvalue" where
  "js_index JUndefined i = Inl TypeError"
| "js_index JNull i = Inl TypeError"
| "js_index (JArr xs) i = Inr (if i < length xs then xs ! i else JUndefined)"
| "js_index (JStr s) i = Inr (if i < length s then JStr [s ! i] else JUndefined)"
| "js_index (JObj kvs) i = Inr (lookup kvs (decimal i))"
| "js_index _ i = Inr JUndefined"

text \<open>\<open>s.replace(/c/g, r)\<close> for a single literal character \<open>c\<close>\<close>

definition replace_all :: "16 word \<Rightarrow> jsstring \<Rightarrow> jsstring \<Rightarrow> jsstring" where
  "replace_all c r s = concat (map (\<lambda>x. if x = c then r else [x]) s)"

text \<open>
  \<open>value.replace(/%/g, '.*').replace(/_/g, '.')\<close>; a value that is not a string has no
  method \<open>replace\<close>, and the call throws.
\<close>

fun like_pattern :: "'n jsvalue \<Rightarrow> error + jsstring" where
  "like_pattern (JStr p) = Inr (replace_all 0x5F (str ''.'') (replace_all 0x25 (str ''.*'') p))"
| "like_pattern _ = Inl TypeError"

text \<open>The \<open>switch (operator)\<close> of the main loop: what is stored under the field.\<close>

definition compile_condition :: "'n jsvalue \<Rightarrow> 'n jsvalue \<Rightarrow> error + 'n jsvalue" where
  "compile_condition operator value =
    (if operator = JStr (str ''='') \<or> operator = JStr (str ''=='') then Inr value
     else if operator = JStr (str ''!='') \<or> operator = JStr (str ''<>'')
       then Inr (JObj [(str ''$ne'', value)])
     else if operator = JStr (str ''>'') then Inr (JObj [(str ''$gt'', value)])
     else if operator = JStr (str ''>='') then Inr (JObj [(str ''$gte'', value)])
     else if operator = JStr (str ''<'') then Inr (JObj [(str ''$lt'', value)])
     else if operator = JStr (str ''<='') then Inr (JObj [(str ''$lte'', value)])
     else if operator = JStr (str ''in'') then Inr (JObj [(str ''$in'', value)])
     else if operator = JStr (str ''not-in'') then Inr (JObj [(str ''$nin'', value)])
     else if operator = JStr (str ''between'') then
       (case js_index value 0 of
          Inl e \<Rightarrow> Inl e
        | Inr lo \<Rightarrow>
            (case js_index value 1 of
               Inl e \<Rightarrow> Inl e
             | Inr hi \<Rightarrow> Inr (JObj [(str ''$gte'', lo), (str ''$lte'', hi)])))
     else if operator = JStr (str ''like'') then
       (case like_pattern value of
          Inl e \<Rightarrow> Inl e
        | Inr pattern \<Rightarrow>
            Inr (JObj [(str ''$regex'', JStr pattern), (str ''$options'', JStr (str ''i''))]))
     else if operator = JStr (str ''null'') then Inr JNull
     else if operator = JStr (str ''not-null'') then Inr (JObj [(str ''$ne'', JNull)])
     else Inr value)"

text \<open>
  The main loop over \<open>Object.entries(this.filters)\<close>, with \<open>mongoQuery\<close> as
  accumulator. The field \<open>_id\<close> is skipped; a condition that is not an object (or is
  \<open>null\<close>) is stored as it is.
\<close>

fun build_filters :: "'n obj \<Rightarrow> 'n obj \<Rightarrow> error + 'n obj" where
  "build_filters [] mongoQuery = Inr mongoQuery"
| "build_filters ((field, cond) # rest) mongoQuery =
    (if field = str ''_id'' then build_filters rest mongoQuery
     else if \<not> is_object cond then build_filters rest (AList.update field cond mongoQuery)
     else
       (case destructure cond of
          Inl e \<Rightarrow> Inl e
        | Inr (operator, value) \<Rightarrow>
            (case compile_condition operator value of
               Inl e \<Rightarrow> Inl e
             | Inr c \<Rightarrow> build_filters rest (AList.update field c mongoQuery))))"

text \<open>
  The loop over one OR alternative, with \<open>orQuery\<close> as accumulator: only the operator
  \<open>'='\<close> stores anything.
\<close>

fun build_or_query :: "'n obj \<Rightarrow> 'n obj \<Rightarrow> error + 'n obj" where
  "build_or_query [] orQuery = Inr orQuery"
| "build_or_query ((field, cond) # rest) orQuery =
    (case destructure cond of
       Inl e \<Rightarrow> Inl e
     | Inr (operator, value) \<Rightarrow>
         if operator = JStr (str ''='') then build_or_query rest (AList.update field value orQuery)
         else build_or_query rest orQuery)"

text \<open>\<open>this.orConditions.map(...)\<close>, stopping at the first alternative that throws\<close>

fun build_or_queries :: "'n obj list \<Rightarrow> error + 'n jsvalue list" where
  "build_or_queries [] = Inr []"
| "build_or_queries (c # cs) =
    (case build_or_query c [] of
       Inl e \<Rightarrow> Inl e
     | Inr q \<Rightarrow>
         (case build_or_queries cs of
            Inl e \<Rightarrow> Inl e
          | Inr qs \<Rightarrow> Inr (JObj q # qs)))"

definition buildMongoQuery :: "'n CosmosQueryBuilder \<Rightarrow> error + 'n obj" where
  "buildMongoQuery b =
    (case build_filters (filters b) [] of
       Inl e \<Rightarrow> Inl e
     | Inr mongoQuery \<Rightarrow>
         (case orConditions b of
            None \<Rightarrow> Inr mongoQuery
          | Some [] \<Rightarrow> Inr mongoQuery
          | Some (c # cs) \<Rightarrow>
              (case build_or_queries (c # cs) of
                 Inl e \<Rightarrow> Inl e
               | Inr orQueries \<Rightarrow> Inr (AList.update (str ''$or'') (JArr orQueries) mongoQuery))))"

text \<open>\<open>_buildProjection\<close>: every selected field with the value 1\<close>

definition buildProjection :: "'n CosmosQueryBuilder \<Rightarrow> (jsstring \<times> int) list" where
  "buildProjection b =
    (case selectFields b of
       None \<Rightarrow> []
     | Some fs \<Rightarrow> fold (\<lambda>field projection. AList.update field 1 projection) fs [])"

section \<open>The encryption codec (\<open>encrypt\<close>, \<open>decrypt\<close>, \<open>_decryptRow\<close>)\<close>

type_synonym bytes = "8 word list"

text \<open>
  What the class takes from the JavaScript runtime and from its module constants:
  \<^item> \<open>SECRET_KEY\<close>, the SHA-256 digest of the environment's \<open>DB_ENCRYPTION_KEY\<close>;
  \<^item> \<open>cipher key iv data\<close>: \<open>crypto.createCipheriv(ALGORITHM, key, iv)\<close>, then \<open>update\<close> of
    the data and \<open>final\<close>, with the output of both; \<open>decipher\<close> likewise for
    \<open>crypto.createDecipheriv\<close>. Either one may throw;
  \<^item> the built-in functions \<open>Number\<close> and \<open>isNaN\<close>, and \<open>toString\<close>, the string of
    a value that is neither \<open>null\<close> nor \<open>undefined\<close>.
\<close>

record 'n runtime =
  SECRET_KEY :: bytes
  cipher :: "bytes \<Rightarrow> bytes \<Rightarrow> bytes \<Rightarrow> error + bytes"
  decipher :: "bytes \<Rightarrow> bytes \<Rightarrow> bytes \<Rightarrow> error + bytes"
  Number :: "'n jsvalue \<Rightarrow> 'n"
  isNaN :: "'n \<Rightarrow> bool"
  toString :: "'n jsvalue \<Rightarrow> jsstring"

subsection \<open>Strings and bytes: the encodings \<open>'utf8'\<close> and \<open>'hex'\<close>\<close>

definition is_high_surrogate :: "16 word \<Rightarrow> bool" where
  "is_high_surrogate c = (0xD800 \<le> c \<and> c \<le> 0xDBFF)"

definition is_low_surrogate :: "16 word \<Rightarrow> bool" where
  "is_low_surrogate c = (0xDC00 \<le> c \<and> c \<le> 0xDFFF)"

definition utf8_of_code_point :: "nat \<Rightarrow> bytes" where
  "utf8_of_code_point n =
    (if n < 0x80 then [of_nat n]
     else if n < 0x800 then [of_nat (0xC0 + n div 64), of_nat (0x80 + n mod 64)]
     else if n < 0x10000 then
       [of_nat (0xE0 + n div 4096), of_nat (0x80 + n div 64 mod 64), of_nat (0x80 + n mod 64)]
     else
       [of_nat (0xF0 + n div 262144), of_nat (0x80 + n div 4096 mod 64),
        of_nat (0x80 + n div 64 mod 64), of_nat (0x80 + n mod 64)])"

text \<open>
  A string as UTF-8: a surrogate pair is one code point, a surrogate that stands alone
  is written as U+FFFD (the bytes EF BF BD).
\<close>

fun utf8_encode :: "jsstring \<Rightarrow> bytes" where
  "utf8_encode [] = []"
| "utf8_encode [c] =
    (if is_high_surrogate c \<or> is_low_surrogate c then [0xEF, 0xBF, 0xBD]
     else utf8_of_code_point (unat c))"
| "utf8_encode (c # d # rest) =
    (if is_high_surrogate c \<and> is_low_surrogate d then
       utf8_of_code_point (0x10000 + (unat c - 0xD800) * 1024 + (unat d - 0xDC00))
         @ utf8_encode rest
     else if is_high_surrogate c \<or> is_low_surrogate c then
       [0xEF, 0xBF, 0xBD] @ utf8_encode (d # rest)
     else utf8_of_code_point (unat c) @ utf8_encode (d # rest))"

definition utf16_of_code_point :: "nat \<Rightarrow> jsstring" where
  "utf16_of_code_point n =
    (if n < 0x10000 then [of_nat n]
     else [of_nat (0xD800 + (n - 0x10000) div 1024), of_nat (0xDC00 + (n - 0x10000) mod 1024)])"

definition between_bytes :: "8 word \<Rightarrow> nat \<Rightarrow> nat \<Rightarrow> bool" where
  "between_bytes b lo hi = (lo \<le> unat b \<and> unat b \<le> hi)"

text \<open>
  Bytes read as UTF-8. A byte sequence that is not well formed gives U+FFFD once for
  the part read so far, and reading goes on at the byte that did not fit.
\<close>

fun utf8_decode :: "bytes \<Rightarrow> jsstring" where
  "utf8_decode [] = []"
| "utf8_decode (b # rest) =
    (if unat b < 0x80 then of_nat (unat b) # utf8_decode rest
     else if between_bytes b 0xC2 0xDF then
       (case rest of
          [] \<Rightarrow> [0xFFFD]
        | c1 # r1 \<Rightarrow>
            if between_bytes c1 0x80 0xBF
            then utf16_of_code_point (unat b mod 32 * 64 + unat c1 mod 64) @ utf8_decode r1
            else 0xFFFD # utf8_decode rest)
     else if between_bytes b 0xE0 0xEF then
       (case rest of
          [] \<Rightarrow> [0xFFFD]
        | c1 # r1 \<Rightarrow>
            if between_bytes c1 (if b = 0xE0 then 0xA0 else 0x80) (if b = 0xED then 0x9F else 0xBF)
            then
              (case r1 of
                 [] \<Rightarrow> [0xFFFD]
               | c2 # r2 \<Rightarrow>
                   if between_bytes c2 0x80 0xBF
                   then utf16_of_code_point
                          (unat b mod 16 * 4096 + unat c1 mod 64 * 64 + unat c2 mod 64)
                        @ utf8_decode r2
                   else 0xFFFD # utf8_decode r1)
            else 0xFFFD # utf8_decode rest)
     else if between_bytes b 0xF0 0xF4 then
       (case rest of
          [] \<Rightarrow> [0xFFFD]
        | c1 # r1 \<Rightarrow>
            if between_bytes c1 (if b = 0xF0 then 0x90 else 0x80) (if b = 0xF4 then 0x8F else 0xBF)
            then
              (case r1 of
                 [] \<Rightarrow> [0xFFFD]
               | c2 # r2 \<Rightarrow>
                   if between_bytes c2 0x80 0xBF
                   then
                     (case r2 of
                        [] \<Rightarrow> [0xFFFD]
                      | c3 # r3 \<Rightarrow>
                          if between_bytes c3 0x80 0xBF
                          then utf16_of_code_point
                                 (unat b mod 8 * 262144 + unat c1 mod 64 * 4096
                                    + unat c2 mod 64 * 64 + unat c3 mod 64)
                               @ utf8_decode r3
                          else 0xFFFD # utf8_decode r2)
                   else 0xFFFD # utf8_decode r1)
            else 0xFFFD # utf8_decode rest)
     else 0xFFFD # utf8_decode rest)"



definition hex_digit :: "nat \<Rightarrow> 16 word" where
  "hex_digit n = (if n < 10 then of_nat (48 + n) else of_nat (87 + n))"

text \<open>\<open>buffer.toString('hex')\<close>\<close>

definition hex_encode :: "bytes \<Rightarrow> jsstring" where
  "hex_encode bs = concat (map (\<lambda>b. [hex_digit (unat b div 16), hex_digit (unat b mod 16)]) bs)"

definition hex_value :: "16 word \<Rightarrow> nat option" where
  "hex_value c =
    (let n = unat c in
     if 48 \<le> n \<and> n \<le> 57 then Some (n - 48)
     else if 97 \<le> n \<and> n \<le> 102 then Some (n - 87)
     else if 65 \<le> n \<and> n \<le> 70 then Some (n - 55)
     else None)"

text \<open>
  \<open>Buffer.from(s, 'hex')\<close>: pairs of hexadecimal digits, up to the first pair that is
  not one; a last digit without a partner is left out.
\<close>

fun hex_decode :: "jsstring \<Rightarrow> bytes" where
  "hex_decode (a # b # rest) =
    (case hex_value a of
       None \<Rightarrow> []
     | Some x \<Rightarrow>
         (case hex_value b of
            None \<Rightarrow> []
          | Some y \<Rightarrow> of_nat (16 * x + y) # hex_decode rest))"
| "hex_decode _ = []"

text \<open>\<open>s.split(sep)\<close> and \<open>parts.join(sep)\<close> for a separator of one character\<close>

fun split :: "16 word \<Rightarrow> jsstring \<Rightarrow> jsstring list" where
  "split sep [] = [[]]"
| "split sep (x # xs) =
    (if x = sep then [] # split sep xs
     else (case split sep xs of [] \<Rightarrow> [[x]] | p # ps \<Rightarrow> (x # p) # ps))"

fun join :: "16 word \<Rightarrow> jsstring list \<Rightarrow> jsstring" where
  "join sep [] = []"
| "join sep [p] = p"
| "join sep (p # q # ps) = p @ sep # join sep (q # ps)"

subsection \<open>\<open>encrypt\<close> and \<open>decrypt\<close>\<close>

text \<open>\<open>String(text)\<close> for a text that is neither \<open>null\<close> nor \<open>undefined\<close>\<close>

fun String :: "'n runtime \<Rightarrow> 'n jsvalue \<Rightarrow> jsstring" where
  "String R (JStr s) = s"
| "String R v = toString R v"

text \<open>
  \<open>encrypt\<close>; the argument \<open>iv\<close> is what \<open>crypto.randomBytes(IV_LENGTH)\<close> returned in
  this call.
\<close>

definition encrypt :: "'n runtime \<Rightarrow> bytes \<Rightarrow> 'n jsvalue \<Rightarrow> error + 'n jsvalue" where
  "encrypt R iv text =
    (if text = JNull \<or> text = JUndefined then Inr text
     else
       (case cipher R (SECRET_KEY R) iv (utf8_encode (String R text)) of
          Inl e \<Rightarrow> Inl e
        | Inr encrypted \<Rightarrow> Inr (JStr (hex_encode iv @ str '':'' @ hex_encode encrypted))))"

text \<open>
  The body of the \<open>try\<close> block of \<open>decrypt\<close>. \<open>decipher.update\<close> refuses a hexadecimal
  string of odd length.
\<close>

definition decrypt_try :: "'n runtime \<Rightarrow> jsstring \<Rightarrow> error + jsstring" where
  "decrypt_try R encryptedText =
    (let textParts = split 0x3A encryptedText;
         iv = hex_decode (hd textParts);
         encryptedData = join 0x3A (tl textParts)
     in if odd (length encryptedData) then Inl TypeError
        else
          (case decipher R (SECRET_KEY R) iv (hex_decode encryptedData) of
             Inl e \<Rightarrow> Inl e
           | Inr decrypted \<Rightarrow> Inr (utf8_decode decrypted)))"

definition decrypt :: "'n runtime \<Rightarrow> 'n jsvalue \<Rightarrow> error + 'n jsvalue" where
  "decrypt R encryptedText =
    (case encryptedText of
       JStr s \<Rightarrow>
         if 0x3A \<notin> set s then Inr encryptedText
         else
           (case decrypt_try R s of
              Inl e \<Rightarrow> Inr encryptedText
            | Inr decrypted \<Rightarrow> Inr (JStr decrypted))
     | _ \<Rightarrow> Inr encryptedText)"

subsection \<open>\<open>_decryptRow\<close>\<close>

text \<open>
  One pass of the loop \<open>for (const key in decryptedRow)\<close>: the new value of the
  property \<open>key\<close>, whose value was \<open>v\<close>.
\<close>

definition decrypt_property :: "'n runtime \<Rightarrow> jsstring \<Rightarrow> 'n jsvalue \<Rightarrow> error + 'n jsvalue" where
  "decrypt_property R key v =
    (if key = str ''_id'' then Inr v
     else
       (case v of
          JStr s \<Rightarrow>
            if 0x3A \<in> set s then
              (case decrypt R v of
                 Inl e \<Rightarrow> Inl e
               | Inr decrypted \<Rightarrow>
                   if decrypted \<noteq> v \<and> \<not> isNaN R (Number R decrypted)
                   then Inr (JNum (Number R decrypted))
                   else Inr decrypted)
            else Inr v
        | _ \<Rightarrow> Inr v))"

fun decrypt_properties :: "'n runtime \<Rightarrow> 'n obj \<Rightarrow> error + 'n obj" where
  "decrypt_properties R [] = Inr []"
| "decrypt_properties R ((key, v) # rest) =
    (case decrypt_property R key v of
       Inl e \<Rightarrow> Inl e
     | Inr v' \<Rightarrow>
         (case decrypt_properties R rest of
            Inl e \<Rightarrow> Inl e
          | Inr rest' \<Rightarrow> Inr ((key, v') # rest')))"

text \<open>
  \<open>{ ...row }\<close>: the own properties of an object; those of an array are its elements
  under their indices.
\<close>

fun spread :: "'n jsvalue \<Rightarrow> 'n obj" where
  "spread (JObj kvs) = kvs"
| "spread (JArr xs) = zip (map decimal [0..<length xs]) xs"
| "spread _ = []"

definition decryptRow :: "'n runtime \<Rightarrow> 'n jsvalue \<Rightarrow> error + 'n jsvalue" where
  "decryptRow R row =
    (if \<not> is_object row then Inr row
     else
       (case decrypt_properties R (spread row) of
          Inl e \<Rightarrow> Inl e
        | Inr decryptedRow \<Rightarrow> Inr (JObj decryptedRow)))"

section \<open>The store\<close>

text \<open>
  The MongoDB database behind \<open>this.db\<close>, as far as the driver uses it: the documents of
  each collection, the value the store reads in a document under a field name
  (\<open>read_field\<close>), its comparison of two values (\<open>bson_eq\<close>, \<open>bson_lt\<close>), its regular
  expression matching (pattern, options, value), its ordering of documents by a sort
  specification, and whether \<open>collection.watch()\<close> opens a change stream for a collection
  or throws.
\<close>

record 'n mongo =
  documents :: "jsstring \<Rightarrow> 'n obj list"
  read_field :: "'n obj \<Rightarrow> jsstring \<Rightarrow> 'n jsvalue"
  bson_eq :: "'n jsvalue \<Rightarrow> 'n jsvalue \<Rightarrow> bool"
  bson_lt :: "'n jsvalue \<Rightarrow> 'n jsvalue \<Rightarrow> bool"
  regex_test :: "jsstring \<Rightarrow> 'n jsvalue \<Rightarrow> 'n jsvalue \<Rightarrow> bool"
  sort_documents :: "(jsstring \<times> int) list \<Rightarrow> 'n obj list \<Rightarrow> 'n obj list"
  watch :: "jsstring \<Rightarrow> error + nat"

text \<open>In a query, \<open>undefined\<close> is sent to the store as \<open>null\<close>.\<close>

definition bson :: "'n jsvalue \<Rightarrow> 'n jsvalue" where
  "bson v = (if v = JUndefined then JNull else v)"

definition bson_le :: "'n mongo \<Rightarrow> 'n jsvalue \<Rightarrow> 'n jsvalue \<Rightarrow> bool" where
  "bson_le M a b = (bson_lt M a b \<or> bson_eq M a b)"

text \<open>One operator of an operator expression \<open>{ $op: operand, ... }\<close> on a value.\<close>

definition eval_operator ::
  "'n mongo \<Rightarrow> 'n obj \<Rightarrow> jsstring \<Rightarrow> 'n jsvalue \<Rightarrow> 'n jsvalue \<Rightarrow> error + bool" where
  "eval_operator M expr name operand v =
    (if name = str ''$ne'' then Inr (\<not> bson_eq M (bson operand) v)
     else if name = str ''$gt'' then Inr (bson_lt M (bson operand) v)
     else if name = str ''$gte'' then Inr (bson_le M (bson operand) v)
     else if name = str ''$lt'' then Inr (bson_lt M v (bson operand))
     else if name = str ''$lte'' then Inr (bson_le M v (bson operand))
     else if name = str ''$in'' then
       (case operand of
          JArr xs \<Rightarrow> Inr (list_ex (\<lambda>x. bson_eq M (bson x) v) xs)
        | _ \<Rightarrow> Inl MongoError)
     else if name = str ''$nin'' then
       (case operand of
          JArr xs \<Rightarrow> Inr (\<not> list_ex (\<lambda>x. bson_eq M (bson x) v) xs)
        | _ \<Rightarrow> Inl MongoError)
     else if name = str ''$regex'' then
       (case operand of
          JStr pattern \<Rightarrow> Inr (regex_test M pattern (lookup expr (str ''$options'')) v)
        | _ \<Rightarrow> Inl MongoError)
     else if name = str ''$options'' then
       (if map_of expr (str ''$regex'') = None then Inl MongoError else Inr True)
     else Inl MongoError)"

fun eval_operators :: "'n mongo \<Rightarrow> 'n obj \<Rightarrow> 'n obj \<Rightarrow> 'n jsvalue \<Rightarrow> error + bool" where
  "eval_operators M expr [] v = Inr True"
| "eval_operators M expr ((name, operand) # rest) v =
    (case eval_operator M expr name operand v of
       Inl e \<Rightarrow> Inl e
     | Inr ok \<Rightarrow>
         (case eval_operators M expr rest v of
            Inl e \<Rightarrow> Inl e
          | Inr oks \<Rightarrow> Inr (ok \<and> oks)))"

text \<open>An object whose first key starts with \<open>$\<close> is an operator expression.\<close>

fun operator_expression :: "'n jsvalue \<Rightarrow> bool" where
  "operator_expression (JObj ((k, v) # rest)) = (take 1 k = str ''$'')"
| "operator_expression _ = False"

definition eval_field :: "'n mongo \<Rightarrow> jsstring \<Rightarrow> 'n jsvalue \<Rightarrow> 'n obj \<Rightarrow> error + bool" where
  "eval_field M field c doc =
    (case c of
       JObj expr \<Rightarrow>
         if operator_expression c then eval_operators M expr expr (read_field M doc field)
         else Inr (bson_eq M c (read_field M doc field))
     | _ \<Rightarrow> Inr (bson_eq M (bson c) (read_field M doc field)))"

text \<open>
  A query on a document: every entry holds. A key that starts with \<open>$\<close> is an operator
  of the query, not a field: \<open>$or\<close> holds when one of its alternatives does, and the
  driver writes no other.
\<close>

fun matches :: "'n mongo \<Rightarrow> 'n obj \<Rightarrow> 'n obj \<Rightarrow> error + bool"
  and matches_any :: "'n mongo \<Rightarrow> 'n jsvalue list \<Rightarrow> 'n obj \<Rightarrow> error + bool" where
  "matches M [] doc = Inr True"
| "matches M ((k, c) # rest) doc =
    (case (if take 1 k = str ''$'' then
             (if k = str ''$or'' then
                (case c of
                   JArr (alt # alts) \<Rightarrow> matches_any M (alt # alts) doc
                 | _ \<Rightarrow> Inl MongoError)
              else Inl MongoError)
           else eval_field M k c doc) of
       Inl e \<Rightarrow> Inl e
     | Inr ok \<Rightarrow>
         (case matches M rest doc of
            Inl e \<Rightarrow> Inl e
          | Inr oks \<Rightarrow> Inr (ok \<and> oks)))"
| "matches_any M [] doc = Inr False"
| "matches_any M (JObj q # alts) doc =
    (case matches M q doc of
       Inl e \<Rightarrow> Inl e
     | Inr ok \<Rightarrow>
         (case matches_any M alts doc of
            Inl e \<Rightarrow> Inl e
          | Inr oks \<Rightarrow> Inr (ok \<or> oks)))"
| "matches_any M (_ # alts) doc = Inl MongoError"

text \<open>\<open>collection.find(query)\<close>: the documents of the collection that match.\<close>

fun find' :: "'n mongo \<Rightarrow> 'n obj \<Rightarrow> 'n obj list \<Rightarrow> error + 'n obj list" where
  "find' M query [] = Inr []"
| "find' M query (doc # docs) =
    (case matches M query doc of
       Inl e \<Rightarrow> Inl e
     | Inr ok \<Rightarrow>
         (case find' M query docs of
            Inl e \<Rightarrow> Inl e
          | Inr found \<Rightarrow> Inr (if ok then doc # found else found)))"

text \<open>
  A cursor collects the options of the calls \<open>project\<close>, \<open>sort\<close>, \<open>skip\<close> and
  \<open>limit\<close>; \<open>toArray\<close> runs the query: the store filters, sorts, skips, limits and
  projects, in this order, whatever the order of the calls. A limit of 0 is no limit, a
  negative limit is the limit of its absolute value. A projection keeps \<open>_id\<close> and the
  fields it names.
\<close>

record 'n cursor =
  c_collection :: jsstring
  c_query :: "'n obj"
  c_projection :: "(jsstring \<times> int) list"
  c_sort :: "(jsstring \<times> int) list"
  c_skip :: int
  c_limit :: int

definition project_document :: "(jsstring \<times> int) list \<Rightarrow> 'n obj \<Rightarrow> 'n obj" where
  "project_document projection doc =
    (if projection = [] then doc
     else filter (\<lambda>(k, v). k = str ''_id'' \<or> map_of projection k \<noteq> None) doc)"

definition toArray :: "'n mongo \<Rightarrow> 'n cursor \<Rightarrow> error + 'n obj list" where
  "toArray M c =
    (case find' M (c_query c) (documents M (c_collection c)) of
       Inl e \<Rightarrow> Inl e
     | Inr found \<Rightarrow>
         (let sorted = (if c_sort c = [] then found else sort_documents M (c_sort c) found);
              skipped = drop (nat (c_skip c)) sorted;
              limited = (if c_limit c = 0 then skipped else take (nat \<bar>c_limit c\<bar>) skipped)
          in Inr (map (project_document (c_projection c)) limited)))"

section \<open>Running a query (\<open>get\<close>)\<close>

text \<open>The adapter object: \<open>this.db\<close> is \<open>null\<close> (\<open>None\<close>) until \<open>connect\<close> has run.\<close>

record 'n CosmosDB =
  db :: "'n mongo option"

text \<open>
  \<open>{ id: doc._id.toString(), ...decrypted }\<close>, after \<open>this.database._decryptRow(doc)\<close>
\<close>

definition format_result :: "'n runtime \<Rightarrow> 'n obj \<Rightarrow> error + 'n jsvalue" where
  "format_result R doc =
    (case decryptRow R (JObj doc) of
       Inl e \<Rightarrow> Inl e
     | Inr decrypted \<Rightarrow>
         (let id = lookup doc (str ''_id'')
          in if id = JUndefined \<or> id = JNull then Inl TypeError
             else Inr (JObj (assign [(str ''id'', JStr (String R id))] (spread decrypted)))))"

fun format_results :: "'n runtime \<Rightarrow> 'n obj list \<Rightarrow> error + 'n jsvalue list" where
  "format_results R [] = Inr []"
| "format_results R (doc # docs) =
    (case format_result R doc of
       Inl e \<Rightarrow> Inl e
     | Inr r \<Rightarrow>
         (case format_results R docs of
            Inl e \<Rightarrow> Inl e
          | Inr rs \<Rightarrow> Inr (r # rs)))"

definition get :: "'n runtime \<Rightarrow> 'n CosmosDB \<Rightarrow> 'n CosmosQueryBuilder \<Rightarrow> error + 'n jsvalue list" where
  "get R database b =
    (case db database of
       None \<Rightarrow> Inl TypeError
     | Some M \<Rightarrow>
         (case buildMongoQuery b of
            Inl e \<Rightarrow> Inl e
          | Inr query \<Rightarrow>
              (let projection = buildProjection b;
                   sort = (case orderField b of
                             None \<Rightarrow> []
                           | Some field \<Rightarrow> [(field, orderDirection b)]);
                   cursor0 = \<lparr> c_collection = collectionName b, c_query = query,
                               c_projection = [], c_sort = [], c_skip = 0, c_limit = 0 \<rparr>;
                   cursor1 = (if projection \<noteq> [] then cursor0\<lparr>c_projection := projection\<rparr>
                              else cursor0);
                   cursor2 = (if sort \<noteq> [] then cursor1\<lparr>c_sort := sort\<rparr> else cursor1);
                   cursor3 = (if offsetCount b > 0 then cursor2\<lparr>c_skip := offsetCount b\<rparr>
                              else cursor2);
                   cursor4 = (case limitCount b of
                                None \<Rightarrow> cursor3
                              | Some n \<Rightarrow> if n \<noteq> 0 then cursor3\<lparr>c_limit := n\<rparr> else cursor3)
               in case toArray M cursor4 of
                    Inl e \<Rightarrow> Inl e
                  | Inr results \<Rightarrow> format_results R results)))"

section \<open>Raw queries and change streams\<close>

text \<open>
  \<open>CosmosQueryBuilder.raw\<close> and \<open>CosmosDB.query\<close> write a warning to the console and
  answer with the empty list.
\<close>

definition raw :: "jsstring \<Rightarrow> 'n jsvalue list \<Rightarrow> error + 'n jsvalue list" where
  "raw sql params = Inr []"

definition query :: "jsstring \<Rightarrow> 'n jsvalue list \<Rightarrow> error + 'n jsvalue list" where
  "query sql params = Inr []"

text \<open>
  What \<open>subscribe\<close> returns: a function closing the change stream it opened, or the
  function \<open>() => {}\<close>, which does nothing.
\<close>

datatype unsubscribe = CloseChangeStream nat | EmptyUnsubscribe

text \<open>
  \<open>subscribe\<close>, with the change streams that carry the caller's callback as the
  state. Reading \<open>this.db.collection\<close> throws when \<open>this.db\<close> is \<open>null\<close>, and
  \<open>collection.watch()\<close> may throw; both happen inside the \<open>try\<close> block.
\<close>

definition subscribe ::
  "'n CosmosDB \<Rightarrow> jsstring \<Rightarrow> nat list \<Rightarrow> (error + unsubscribe) \<times> nat list" where
  "subscribe database collection listening =
    (case (case db database of None \<Rightarrow> Inl TypeError | Some M \<Rightarrow> watch M collection) of
       Inl e \<Rightarrow> (Inr EmptyUnsubscribe, listening)
     | Inr changeStream \<Rightarrow> (Inr (CloseChangeStream changeStream), changeStream # listening))"

text \<open>
  The inputs on which \<open>decrypt\<close> has nothing to decrypt: a value that is not a
  string, a string without a colon, and a string on which the \<open>try\<close> block throws
  (the initialization vector or the data is refused, or the padding is not right).
\<close>

definition undecryptable :: "'n runtime \<Rightarrow> 'n jsvalue \<Rightarrow> bool" where
  "undecryptable R x =
    (case x of JStr s \<Rightarrow> 0x3A \<notin> set s \<or> isl (decrypt_try R s) | _ \<Rightarrow> True)"

section \<open>The cipher \<open>aes-256-cbc\<close> of the runtime\<close>

text \<open>
  \<open>crypto.createCipheriv('aes-256-cbc', key, iv)\<close> is the block cipher AES with a key of
  256 bits (FIPS 197) in cipher block chaining mode, with the padding of PKCS 7. The
  tables are the substitution box of the cipher and its inverse, a row for each high half
  of the byte.
\<close>

definition sbox :: "8 word list list" where
  "sbox =
   [[0x63, 0x7C, 0x77, 0x7B, 0xF2, 0x6B, 0x6F, 0xC5, 0x30, 0x01, 0x67, 0x2B, 0xFE, 0xD7, 0xAB, 0x76],
    [0xCA, 0x82, 0xC9, 0x7D, 0xFA, 0x59, 0x47, 0xF0, 0xAD, 0xD4, 0xA2, 0xAF, 0x9C, 0xA4, 0x72, 0xC0],
    [0xB7, 0xFD, 0x93, 0x26, 0x36, 0x3F, 0xF7, 0xCC, 0x34, 0xA5, 0xE5, 0xF1, 0x71, 0xD8, 0x31, 0x15],
    [0x04, 0xC7, 0x23, 0xC3, 0x18, 0x96, 0x05, 0x9A, 0x07, 0x12, 0x80, 0xE2, 0xEB, 0x27, 0xB2, 0x75],
    [0x09, 0x83, 0x2C, 0x1A, 0x1B, 0x6E, 0x5A, 0xA0, 0x52, 0x3B, 0xD6, 0xB3, 0x29, 0xE3, 0x2F, 0x84],
    [0x53, 0xD1, 0x00, 0xED, 0x20, 0xFC, 0xB1, 0x5B, 0x6A, 0xCB, 0xBE, 0x39, 0x4A, 0x4C, 0x58, 0xCF],
    [0xD0, 0xEF, 0xAA, 0xFB, 0x43, 0x4D, 0x33, 0x85, 0x45, 0xF9, 0x02, 0x7F, 0x50, 0x3C, 0x9F, 0xA8],
    [0x51, 0xA3, 0x40, 0x8F, 0x92, 0x9D, 0x38, 0xF5, 0xBC, 0xB6, 0xDA, 0x21, 0x10, 0xFF, 0xF3, 0xD2],
    [0xCD, 0x0C, 0x13, 0xEC, 0x5F, 0x97, 0x44, 0x17, 0xC4, 0xA7, 0x7E, 0x3D, 0x64, 0x5D, 0x19, 0x73],
    [0x60, 0x81, 0x4F, 0xDC, 0x22, 0x2A, 0x90, 0x88, 0x46, 0xEE, 0xB8, 0x14, 0xDE, 0x5E, 0x0B, 0xDB],
    [0xE0, 0x32, 0x3A, 0x0A, 0x49, 0x06, 0x24, 0x5C, 0xC2, 0xD3, 0xAC, 0x62, 0x91, 0x95, 0xE4, 0x79],
    [0xE7, 0xC8, 0x37, 0x6D, 0x8D, 0xD5, 0x4E, 0xA9, 0x6C, 0x56, 0xF4, 0xEA, 0x65, 0x7A, 0xAE, 0x08],
    [0xBA, 0x78, 0x25, 0x2E, 0x1C, 0xA6, 0xB4, 0xC6, 0xE8, 0xDD, 0x74, 0x1F, 0x4B, 0xBD, 0x8B, 0x8A],
    [0x70, 0x3E, 0xB5, 0x66, 0x48, 0x03, 0xF6, 0x0E, 0x61, 0x35, 0x57, 0xB9, 0x86, 0xC1, 0x1D, 0x9E],
    [0xE1, 0xF8, 0x98, 0x11, 0x69, 0xD9, 0x8E, 0x94, 0x9B, 0x1E, 0x87, 0xE9, 0xCE, 0x55, 0x28, 0xDF],
    [0x8C, 0xA1, 0x89, 0x0D, 0xBF, 0xE6, 0x42, 0x68, 0x41, 0x99, 0x2D, 0x0F, 0xB0, 0x54, 0xBB, 0x16]]"

definition inv_sbox :: "8 word list list" where
  "inv_sbox =
   [[0x52, 0x09, 0x6A, 0xD5, 0x30, 0x36, 0xA5, 0x38, 0xBF, 0x40, 0xA3, 0x9E, 0x81, 0xF3, 0xD7, 0xFB],
    [0x7C, 0xE3, 0x39, 0x82, 0x9B, 0x2F, 0xFF, 0x87, 0x34, 0x8E, 0x43, 0x44, 0xC4, 0xDE, 0xE9, 0xCB],
    [0x54, 0x7B, 0x94, 0x32, 0xA6, 0xC2, 0x23, 0x3D, 0xEE, 0x4C, 0x95, 0x0B, 0x42, 0xFA, 0xC3, 0x4E],
    [0x08, 0x2E, 0xA1, 0x66, 0x28, 0xD9, 0x24, 0xB2, 0x76, 0x5B, 0xA2, 0x49, 0x6D, 0x8B, 0xD1, 0x25],
    [0x72, 0xF8, 0xF6, 0x64, 0x86, 0x68, 0x98, 0x16, 0xD4, 0xA4, 0x5C, 0xCC, 0x5D, 0x65, 0xB6, 0x92],
    [0x6C, 0x70, 0x48, 0x50, 0xFD, 0xED, 0xB9, 0xDA, 0x5E, 0x15, 0x46, 0x57, 0xA7, 0x8D, 0x9D, 0x84],
    [0x90, 0xD8, 0xAB, 0x00, 0x8C, 0xBC, 0xD3, 0x0A, 0xF7, 0xE4, 0x58, 0x05, 0xB8, 0xB3, 0x45, 0x06],
    [0xD0, 0x2C, 0x1E, 0x8F, 0xCA, 0x3F, 0x0F, 0x02, 0xC1, 0xAF, 0xBD, 0x03, 0x01, 0x13, 0x8A, 0x6B],
    [0x3A, 0x91, 0x11, 0x41, 0x4F, 0x67, 0xDC, 0xEA, 0x97, 0xF2, 0xCF, 0xCE, 0xF0, 0xB4, 0xE6, 0x73],
    [0x96, 0xAC, 0x74, 0x22, 0xE7, 0xAD, 0x35, 0x85, 0xE2, 0xF9, 0x37, 0xE8, 0x1C, 0x75, 0xDF, 0x6E],
    [0x47, 0xF1, 0x1A, 0x71, 0x1D, 0x29, 0xC5, 0x89, 0x6F, 0xB7, 0x62, 0x0E, 0xAA, 0x18, 0xBE, 0x1B],
    [0xFC, 0x56, 0x3E, 0x4B, 0xC6, 0xD2, 0x79, 0x20, 0x9A, 0xDB, 0xC0, 0xFE, 0x78, 0xCD, 0x5A, 0xF4],
    [0x1F, 0xDD, 0xA8, 0x33, 0x88, 0x07, 0xC7, 0x31, 0xB1, 0x12, 0x10, 0x59, 0x27, 0x80, 0xEC, 0x5F],
    [0x60, 0x51, 0x7F, 0xA9, 0x19, 0xB5, 0x4A, 0x0D, 0x2D, 0xE5, 0x7A, 0x9F, 0x93, 0xC9, 0x9C, 0xEF],
    [0xA0, 0xE0, 0x3B, 0x4D, 0xAE, 0x2A, 0xF5, 0xB0, 0xC8, 0xEB, 0xBB, 0x3C, 0x83, 0x53, 0x99, 0x61],
    [0x17, 0x2B, 0x04, 0x7E, 0xBA, 0x77, 0xD6, 0x26, 0xE1, 0x69, 0x14, 0x63, 0x55, 0x21, 0x0C, 0x7D]]"

definition sub_byte :: "8 word list list \<Rightarrow> 8 word \<Rightarrow> 8 word" where
  "sub_byte t b = t ! unat (drop_bit 4 b) ! unat (take_bit 4 b)"

text \<open>Multiplication by \<open>x\<close> in the field of the cipher, and by the constants of the inverse.\<close>

definition xtime :: "8 word \<Rightarrow> 8 word" where
  "xtime b = push_bit 1 b XOR (if bit b 7 then 0x1B else 0)"

definition mul9 :: "8 word \<Rightarrow> 8 word" where
  "mul9 b = xtime (xtime (xtime b)) XOR b"

definition mul11 :: "8 word \<Rightarrow> 8 word" where
  "mul11 b = xtime (xtime (xtime b)) XOR xtime b XOR b"

definition mul13 :: "8 word \<Rightarrow> 8 word" where
  "mul13 b = xtime (xtime (xtime b)) XOR xtime (xtime b) XOR b"

definition mul14 :: "8 word \<Rightarrow> 8 word" where
  "mul14 b = xtime (xtime (xtime b)) XOR xtime (xtime b) XOR xtime b"

fun mix_column :: "bytes \<Rightarrow> bytes" where
  "mix_column [a, b, c, d] =
     [xtime a XOR (xtime b XOR b) XOR c XOR d,
      a XOR xtime b XOR (xtime c XOR c) XOR d,
      a XOR b XOR xtime c XOR (xtime d XOR d),
      (xtime a XOR a) XOR b XOR c XOR xtime d]"
| "mix_column col = col"

fun inv_mix_column :: "bytes \<Rightarrow> bytes" where
  "inv_mix_column [a, b, c, d] =
     [mul14 a XOR mul11 b XOR mul13 c XOR mul9 d,
      mul9 a XOR mul14 b XOR mul11 c XOR mul13 d,
      mul13 a XOR mul9 b XOR mul14 c XOR mul11 d,
      mul11 a XOR mul13 b XOR mul9 c XOR mul14 d]"
| "inv_mix_column col = col"

text \<open>The state of the cipher is a block of 16 bytes, column after column.\<close>

fun columns :: "bytes \<Rightarrow> bytes list" where
  "columns (a # b # c # d # rest) = [a, b, c, d] # columns rest"
| "columns rest = []"

definition mix_columns :: "bytes \<Rightarrow> bytes" where
  "mix_columns s = concat (map mix_column (columns s))"

definition inv_mix_columns :: "bytes \<Rightarrow> bytes" where
  "inv_mix_columns s = concat (map inv_mix_column (columns s))"

definition shift_rows :: "bytes \<Rightarrow> bytes" where
  "shift_rows s = map (\<lambda>i. s ! i) [0, 5, 10, 15, 4, 9, 14, 3, 8, 13, 2, 7, 12, 1, 6, 11]"

definition inv_shift_rows :: "bytes \<Rightarrow> bytes" where
  "inv_shift_rows s = map (\<lambda>i. s ! i) [0, 13, 10, 7, 4, 1, 14, 11, 8, 5, 2, 15, 12, 9, 6, 3]"

definition xor_bytes :: "bytes \<Rightarrow> bytes \<Rightarrow> bytes" where
  "xor_bytes xs ys = map2 (XOR) xs ys"

text \<open>
  The key schedule: word \<open>i\<close> from the words before it, the latest first in \<open>ws\<close>; 60
  words of 4 bytes make the 15 round keys.
\<close>

definition next_word :: "nat \<Rightarrow> bytes list \<Rightarrow> bytes" where
  "next_word i ws =
    (let temp = hd ws;
         t = (if i mod 8 = 0
              then xor_bytes (map (sub_byte sbox) (tl temp @ [hd temp]))
                     [[0x01, 0x02, 0x04, 0x08, 0x10, 0x20, 0x40] ! (i div 8 - 1), 0, 0, 0]
              else if i mod 8 = 4 then map (sub_byte sbox) temp
              else temp)
     in xor_bytes (ws ! 7) t)"

fun blocks :: "bytes \<Rightarrow> bytes list" where
  "blocks [] = []"
| "blocks (x # xs) = take 16 (x # xs) # blocks (drop 15 xs)"

definition key_expansion :: "bytes \<Rightarrow> bytes list" where
  "key_expansion key =
     blocks (concat (rev (fold (\<lambda>i ws. next_word i ws # ws) [8..<60] (rev (columns key)))))"

definition aes_round :: "bytes \<Rightarrow> bytes \<Rightarrow> bytes" where
  "aes_round k s = xor_bytes (mix_columns (shift_rows (map (sub_byte sbox) s))) k"

definition aes_inv_round :: "bytes \<Rightarrow> bytes \<Rightarrow> bytes" where
  "aes_inv_round k s = inv_mix_columns (xor_bytes (map (sub_byte inv_sbox) (inv_shift_rows s)) k)"

definition aes_cipher :: "bytes list \<Rightarrow> bytes \<Rightarrow> bytes" where
  "aes_cipher ks block =
     xor_bytes (shift_rows (map (sub_byte sbox)
        (fold aes_round (take 13 (tl ks)) (xor_bytes block (hd ks))))) (ks ! 14)"

definition aes_inv_cipher :: "bytes list \<Rightarrow> bytes \<Rightarrow> bytes" where
  "aes_inv_cipher ks block =
     xor_bytes (map (sub_byte inv_sbox) (inv_shift_rows
        (fold aes_inv_round (rev (take 13 (tl ks))) (xor_bytes block (ks ! 14))))) (hd ks)"

text \<open>Cipher block chaining: \<open>prev\<close> is the initialization vector, then the last cipher block.\<close>

fun cbc_encrypt :: "bytes list \<Rightarrow> bytes \<Rightarrow> bytes list \<Rightarrow> bytes" where
  "cbc_encrypt ks prev [] = []"
| "cbc_encrypt ks prev (b # bs) =
    (let c = aes_cipher ks (xor_bytes b prev) in c @ cbc_encrypt ks c bs)"

fun cbc_decrypt :: "bytes list \<Rightarrow> bytes \<Rightarrow> bytes list \<Rightarrow> bytes" where
  "cbc_decrypt ks prev [] = []"
| "cbc_decrypt ks prev (c # cs) = xor_bytes (aes_inv_cipher ks c) prev @ cbc_decrypt ks c cs"

definition pkcs7_pad :: "bytes \<Rightarrow> bytes" where
  "pkcs7_pad data = (let n = 16 - length data mod 16 in data @ replicate n (of_nat n))"

definition pkcs7_unpad :: "bytes \<Rightarrow> error + bytes" where
  "pkcs7_unpad data =
    (let n = unat (last data)
     in if data = [] \<or> n = 0 \<or> 16 < n \<or> \<not> list_all (\<lambda>x. x = last data) (drop (length data - n) data)
        then Inl CipherError
        else Inr (take (length data - n) data))"

text \<open>
  \<open>createCipheriv\<close> and \<open>createDecipheriv\<close> throw for a key that is not of 32 bytes
  and for an initialization vector that is not of 16 bytes; \<open>decipher.final\<close> throws
  when the data is not a positive number of whole blocks or the padding is not right.
\<close>

definition aes_256_cbc_cipher :: "bytes \<Rightarrow> bytes \<Rightarrow> bytes \<Rightarrow> error + bytes" where
  "aes_256_cbc_cipher key iv data =
    (if length key \<noteq> 32 \<or> length iv \<noteq> 16 then Inl CipherError
     else Inr (cbc_encrypt (key_expansion key) iv (blocks (pkcs7_pad data))))"

definition aes_256_cbc_decipher :: "bytes \<Rightarrow> bytes \<Rightarrow> bytes \<Rightarrow> error + bytes" where
  "aes_256_cbc_decipher key iv data =
    (if length key \<noteq> 32 \<or> length iv \<noteq> 16 then Inl CipherError
     else if data = [] \<or> length data mod 16 \<noteq> 0 then Inl CipherError
     else pkcs7_unpad (cbc_decrypt (key_expansion key) iv (blocks data)))"

section \<open>A runtime and a store for the examples\<close>

text \<open>
  The examples below run the driver on a concrete runtime and a concrete store. Their
  numbers are the integers and \<open>NaN\<close>.
\<close>

datatype number = NaN | Integer int

fun digits_value :: "jsstring \<Rightarrow> nat \<Rightarrow> nat option" where
  "digits_value [] acc = Some acc"
| "digits_value (c # cs) acc =
    (if 48 \<le> unat c \<and> unat c \<le> 57 then digits_value cs (10 * acc + (unat c - 48)) else None)"

text \<open>
  \<open>Number\<close> on the values of the examples: a string of decimal digits is the number it
  writes (the empty string is 0); the other strings of the examples are no numerals.
\<close>

fun example_Number :: "number jsvalue \<Rightarrow> number" where
  "example_Number (JNum n) = n"
| "example_Number (JStr s) = (case digits_value s 0 of None \<Rightarrow> NaN | Some n \<Rightarrow> Integer (int n))"
| "example_Number JNull = Integer 0"
| "example_Number (JBool b) = Integer (if b then 1 else 0)"
| "example_Number v = NaN"

text \<open>\<open>toString\<close> on the values of the examples.\<close>

fun example_toString :: "number jsvalue \<Rightarrow> jsstring" where
  "example_toString (JStr s) = s"
| "example_toString (JBool b) = (if b then str ''true'' else str ''false'')"
| "example_toString (JNum NaN) = str ''NaN''"
| "example_toString (JNum (Integer i)) = (if i < 0 then str ''-'' else []) @ decimal (nat \<bar>i\<bar>)"
| "example_toString v = str ''[object Object]''"

text \<open>
  The key of a process started without \<open>DB_ENCRYPTION_KEY\<close>: the SHA-256 digest of the
  empty string.
\<close>

definition default_key :: bytes where
  "default_key =
    [0xE3, 0xB0, 0xC4, 0x42, 0x98, 0xFC, 0x1C, 0x14, 0x9A, 0xFB, 0xF4, 0xC8, 0x99, 0x6F, 0xB9, 0x24,
     0x27, 0xAE, 0x41, 0xE4, 0x64, 0x9B, 0x93, 0x4C, 0xA4, 0x95, 0x99, 0x1B, 0x78, 0x52, 0xB8, 0x55]"

definition node :: "number runtime" where
  "node =
    \<lparr> SECRET_KEY = default_key, cipher = aes_256_cbc_cipher, decipher = aes_256_cbc_decipher,
      Number = example_Number, isNaN = (\<lambda>n. n = NaN), toString = example_toString \<rparr>"

text \<open>The key of a process started with \<open>DB_ENCRYPTION_KEY=other-key\<close>.\<close>

definition other_key :: bytes where
  "other_key =
    [0x58, 0x08, 0x43, 0xD0, 0x3D, 0x22, 0x16, 0xFF, 0x1A, 0x27, 0x5D, 0x09, 0x91, 0xBA, 0xD6, 0x6E,
     0x4D, 0x1A, 0xF8, 0x71, 0x17, 0x1D, 0x92, 0x9E, 0x9D, 0xE6, 0x04, 0xB7, 0x95, 0x9F, 0x9B, 0xCA]"

text \<open>An initialization vector for the examples.\<close>

definition example_iv :: bytes where
  "example_iv = [0, 1, 2, 3, 4, 5, 6, 7, 8, 9, 10, 11, 12, 13, 14, 15]"

text \<open>The store of the examples compares integers; its documents are flat records.\<close>

fun example_lt :: "number jsvalue \<Rightarrow> number jsvalue \<Rightarrow> bool" where
  "example_lt (JNum (Integer a)) (JNum (Integer b)) = (a < b)"
| "example_lt a b = False"

definition example_read :: "number obj \<Rightarrow> jsstring \<Rightarrow> number jsvalue" where
  "example_read doc field = (case map_of doc field of None \<Rightarrow> JNull | Some v \<Rightarrow> v)"

fun insert_document ::
  "(number obj \<Rightarrow> number obj \<Rightarrow> bool) \<Rightarrow> number obj \<Rightarrow> number obj list \<Rightarrow> number obj list" where
  "insert_document precedes x [] = [x]"
| "insert_document precedes x (y # ys) =
    (if precedes x y then x # y # ys else y # insert_document precedes x ys)"

fun example_sort :: "(jsstring \<times> int) list \<Rightarrow> number obj list \<Rightarrow> number obj list" where
  "example_sort [] docs = docs"
| "example_sort ((field, direction) # rest) docs =
    foldr (insert_document
             (\<lambda>x y. if direction < 0
                    then example_lt (example_read y field) (example_read x field)
                    else example_lt (example_read x field) (example_read y field)))
          docs []"

definition sensors :: "number obj list" where
  "sensors =
    [[(str ''_id'', JStr (str ''s1'')), (str ''temperature'', JNum (Integer 20))],
     [(str ''_id'', JStr (str ''s2'')), (str ''temperature'', JNum (Integer 21))],
     [(str ''_id'', JStr (str ''s3'')), (str ''temperature'', JNum (Integer 22))]]"

definition example_store :: "number mongo" where
  "example_store =
    \<lparr> documents = (\<lambda>name. if name = str ''sensors'' then sensors else []),
      read_field = example_read,
      bson_eq = (\<lambda>a b. a = b),
      bson_lt = example_lt,
      regex_test = (\<lambda>pattern options v. False),
      sort_documents = example_sort,
      watch = (\<lambda>name. Inr 1) \<rparr>"

text \<open>
  Setting up the change stream fails when \<open>this.db\<close> is not set or \<open>watch\<close> throws.
\<close>

definition setup_fails :: "'n CosmosDB \<Rightarrow> jsstring \<Rightarrow> bool" where
  "setup_fails database collection =
    (case db database of None \<Rightarrow> True | Some M \<Rightarrow> isl (watch M collection))"

text \<open>A row with two encrypted fields, \<open>phone\<close> (the text \<open>42\<close>) and \<open>name\<close> (\<open>hello\<close>).\<close>

definition user_row :: "number obj" where
  "user_row =
    [(str ''_id'', JStr (str ''u1'')),
     (str ''phone'', JStr (str ''000102030405060708090a0b0c0d0e0f:7cfcda366f08e51e9fb9a0c66bd07ad3'')),
     (str ''name'', JStr (str ''000102030405060708090a0b0c0d0e0f:9b3b9f534cd09079375a4bb4bc37d9da''))]"


section \<open>Properties\<close>

subsection \<open>Set membership with an empty list\<close>

text \<open>
  C10. For every field, \<open>whereIn\<close> and \<open>whereNotIn\<close> with the empty list leave the
  builder exactly as it was: no condition is added to the query.
\<close>

theorem empty_membership_dropped:
  "whereIn f (JArr []) b = b \<and> whereNotIn f (JArr []) b = b"
  by (simp add: whereIn_def whereNotIn_def)

theorem empty_membership_dropped_witness:
  "whereIn (str ''tags'') (JArr []) (table (str ''sensors'') :: number CosmosQueryBuilder)
     = table (str ''sensors'')
   \<and> whereNotIn (str ''tags'') (JArr []) (table (str ''sensors'') :: number CosmosQueryBuilder)
     = table (str ''sensors'')"
  using empty_membership_dropped [of "str ''tags''" "table (str ''sensors'') :: number CosmosQueryBuilder"]
  by simp

subsection \<open>OR alternatives\<close>

text \<open>
  C3. The query \<open>table('users').orWhere('age', '>', 18)\<close> compiles without an error to
  \<open>{ $or: [ {} ] }\<close>: the condition on \<open>age\<close> is not in the compiled query.
\<close>

theorem or_condition_dropped:
  "buildMongoQuery
     (orWhere (Where3 (str ''age'') (JStr (str ''>'')) (JNum (Integer 18))) (table (str ''users'')))
   = Inr [(str ''$or'', JArr [JObj []])]"
  by (simp add: buildMongoQuery_def table_def push_def str_def default_arg_def lookup_def)

subsection \<open>Raw queries\<close>

text \<open>
  C8, as amended. For every SQL string and every list of parameters, \<open>raw\<close> and
  \<open>query\<close> do not fail: both answer with the empty list.
\<close>

theorem raw_query_empty: "raw sql params = Inr [] \<and> query sql params = Inr []"
  by (simp add: raw_def query_def)

theorem raw_query_empty_witness:
  "raw (str ''SELECT 1'') ([] :: number jsvalue list) = Inr []
   \<and> query (str ''SELECT 1'') ([] :: number jsvalue list) = Inr []"
  using raw_query_empty [of "str ''SELECT 1''" "[] :: number jsvalue list"] by simp

text \<open>C8 as stated fails: the raw query \<open>SELECT 1\<close> is not answered with an error.\<close>

theorem raw_query_counterexample:
  "raw (str ''SELECT 1'') ([] :: number jsvalue list) \<noteq> Inl CapabilityUnsupportedError
   \<and> query (str ''SELECT 1'') ([] :: number jsvalue list) \<noteq> Inl CapabilityUnsupportedError"
  by (simp add: raw_def query_def)

subsection \<open>Change streams\<close>

text \<open>
  C7, as amended. \<open>subscribe\<close> never fails. When the change stream cannot be set up, it
  returns the unsubscribe function that does nothing, and no change stream carries the
  callback.
\<close>

theorem subscribe_swallows_failure:
  "(\<exists>unsubscribe. fst (subscribe database collection listening) = Inr unsubscribe)
   \<and> (setup_fails database collection \<longrightarrow>
        subscribe database collection listening = (Inr EmptyUnsubscribe, listening))"
  by (auto simp: subscribe_def setup_fails_def split: option.splits sum.splits)

theorem subscribe_swallows_failure_witness:
  "setup_fails \<lparr>db = None :: number mongo option\<rparr> (str ''sensors'')
   \<and> subscribe \<lparr>db = None :: number mongo option\<rparr> (str ''sensors'') [] = (Inr EmptyUnsubscribe, [])"
  using subscribe_swallows_failure [of "\<lparr>db = None :: number mongo option\<rparr>" "str ''sensors''" "[]"]
  by (simp add: setup_fails_def)

text \<open>
  C7 as stated fails: on an adapter that is not connected, \<open>subscribe('sensors', callback)\<close>
  returns the empty unsubscribe function and raises nothing.
\<close>

theorem subscribe_counterexample:
  "fst (subscribe \<lparr>db = None :: number mongo option\<rparr> (str ''sensors'') []) = Inr EmptyUnsubscribe
   \<and> snd (subscribe \<lparr>db = None :: number mongo option\<rparr> (str ''sensors'') []) = []"
  by (simp add: subscribe_def)

subsection \<open>Filters on a field\<close>













subsection \<open>Pagination\<close>

lemma format_results_Cons:
  "format_results R (x # xs) = Inr ys \<longleftrightarrow>
     (\<exists>y ys'. ys = y # ys' \<and> format_result R x = Inr y \<and> format_results R xs = Inr ys')"
  by (auto split: sum.splits)

lemma format_results_take:
  "format_results R xs = Inr ys \<Longrightarrow> format_results R (take n xs) = Inr (take n ys)"
proof (induction xs arbitrary: ys n)
  case Nil
  then show ?case by simp
next
  case (Cons x xs)
  from Cons.prems obtain y ys' where
    ys: "ys = y # ys'" and y: "format_result R x = Inr y" and rest: "format_results R xs = Inr ys'"
    unfolding format_results_Cons by blast
  show ?case
  proof (cases n)
    case 0
    then show ?thesis by simp
  next
    case (Suc m)
    with Cons.IH [OF rest, of m] ys y show ?thesis by simp
  qed
qed

lemma format_results_drop:
  "format_results R xs = Inr ys \<Longrightarrow> format_results R (drop k xs) = Inr (drop k ys)"
proof (induction xs arbitrary: ys k)
  case Nil
  then show ?case by simp
next
  case (Cons x xs)
  from Cons.prems obtain y ys' where
    ys: "ys = y # ys'" and y: "format_result R x = Inr y" and rest: "format_results R xs = Inr ys'"
    unfolding format_results_Cons by blast
  show ?case
  proof (cases k)
    case 0
    with Cons.prems show ?thesis by simp
  next
    case (Suc m)
    with Cons.IH [OF rest, of m] ys show ?thesis by simp
  qed
qed

lemma toArray_page:
  "toArray M (c\<lparr>c_skip := k, c_limit := n\<rparr>) =
    (case toArray M (c\<lparr>c_skip := 0, c_limit := 0\<rparr>) of
       Inl e \<Rightarrow> Inl e
     | Inr xs \<Rightarrow> Inr (if n = 0 then drop (nat k) xs else take (nat \<bar>n\<bar>) (drop (nat k) xs)))"
  by (auto simp: toArray_def Let_def take_map drop_map split: sum.splits)


lemma buildMongoQuery_page [simp]:
  "buildMongoQuery (b\<lparr>limitCount := l, offsetCount := k\<rparr>) = buildMongoQuery b"
  by (simp add: buildMongoQuery_def cong: sum.case_cong)

lemma get_unpaginated:
  "get R D (b\<lparr>limitCount := None, offsetCount := 0\<rparr>) =
    (case db D of
       None \<Rightarrow> Inl TypeError
     | Some M \<Rightarrow>
         (case buildMongoQuery b of
            Inl e \<Rightarrow> Inl e
          | Inr q \<Rightarrow>
              (case toArray M \<lparr> c_collection = collectionName b, c_query = q,
                       c_projection = buildProjection b,
                       c_sort = (case orderField b of None \<Rightarrow> [] | Some field \<Rightarrow> [(field, orderDirection b)]),
                       c_skip = 0, c_limit = 0 \<rparr> of
                 Inl e \<Rightarrow> Inl e
               | Inr results \<Rightarrow> format_results R results)))"
  by (auto simp: get_def Let_def buildProjection_def split: option.splits sum.splits)

lemma get_paginated:
  assumes "0 < n" "0 \<le> k"
  shows "get R D (skip k (limit n None b)) =
    (case db D of
       None \<Rightarrow> Inl TypeError
     | Some M \<Rightarrow>
         (case buildMongoQuery b of
            Inl e \<Rightarrow> Inl e
          | Inr q \<Rightarrow>
              (case toArray M \<lparr> c_collection = collectionName b, c_query = q,
                       c_projection = buildProjection b,
                       c_sort = (case orderField b of None \<Rightarrow> [] | Some field \<Rightarrow> [(field, orderDirection b)]),
                       c_skip = k, c_limit = n \<rparr> of
                 Inl e \<Rightarrow> Inl e
               | Inr results \<Rightarrow> format_results R results)))"
  using assms
  by (cases "k = 0")
     (auto simp: get_def Let_def buildProjection_def skip_def limit_def split: option.splits sum.splits)

text \<open>
  C4. Let \<open>rows\<close> be what a query returns without limit and offset: its records in
  the requested order. For every positive limit \<open>n\<close> and every offset \<open>k \<ge> 0\<close>,
  \<open>limit(n).skip(k).get()\<close> returns the records of \<open>rows\<close> at the positions from \<open>k\<close>
  up to, not including, \<open>k + n\<close>, in the same order: \<open>n\<close> records, or the \<open>N - k\<close> that
  are left when \<open>rows\<close> has \<open>N < k + n\<close> records.
\<close>

theorem pagination:
  assumes "0 < n" and "0 \<le> k"
    and "get R D (b\<lparr>limitCount := None, offsetCount := 0\<rparr>) = Inr rows"
  shows "get R D (skip k (limit n None b)) = Inr (take (nat n) (drop (nat k) rows))
       \<and> length (take (nat n) (drop (nat k) rows)) = min (nat n) (length rows - nat k)"
proof
  from assms(3) obtain M q results where
    M: "db D = Some M" and q: "buildMongoQuery b = Inr q"
    and results: "toArray M \<lparr> c_collection = collectionName b, c_query = q,
                       c_projection = buildProjection b,
                       c_sort = (case orderField b of None \<Rightarrow> [] | Some field \<Rightarrow> [(field, orderDirection b)]),
                       c_skip = 0, c_limit = 0 \<rparr> = Inr results"
    and rows: "format_results R results = Inr rows"
    unfolding get_unpaginated by (auto split: option.splits sum.splits)
  let ?c = "\<lparr> c_collection = collectionName b, c_query = q,
                       c_projection = buildProjection b,
                       c_sort = (case orderField b of None \<Rightarrow> [] | Some field \<Rightarrow> [(field, orderDirection b)]),
                       c_skip = 0, c_limit = 0 \<rparr>"
  have page: "toArray M \<lparr> c_collection = collectionName b, c_query = q,
                       c_projection = buildProjection b,
                       c_sort = (case orderField b of None \<Rightarrow> [] | Some field \<Rightarrow> [(field, orderDirection b)]),
                       c_skip = k, c_limit = n \<rparr> = Inr (take (nat n) (drop (nat k) results))"
    using toArray_page [where M = M and c = "?c" and k = k and n = n] results assms(1) by simp
  have "format_results R (take (nat n) (drop (nat k) results)) = Inr (take (nat n) (drop (nat k) rows))"
    by (rule format_results_take [OF format_results_drop [OF rows]])
  then show "get R D (skip k (limit n None b)) = Inr (take (nat n) (drop (nat k) rows))"
    by (simp add: get_paginated [OF assms(1,2)] M q page)
  show "length (take (nat n) (drop (nat k) rows)) = min (nat n) (length rows - nat k)"
    by simp
qed

lemmas example_eval =
  get_def toArray_def buildMongoQuery_def buildProjection_def table_def orderByDesc_def
  orderBy_def skip_def limit_def example_store_def sensors_def example_read_def node_def
  eval_field_def eval_operator_def format_result_def decryptRow_def decrypt_property_def
  project_document_def lookup_def assign_def bson_def bson_le_def str_def Let_def

theorem pagination_witness:
  "(0::int) < 2 \<and> (0::int) \<le> 1
   \<and> get node \<lparr>db = Some example_store\<rparr>
        ((orderByDesc (str ''temperature'') (table (str ''sensors'')))\<lparr>limitCount := None, offsetCount := 0\<rparr>)
       = Inr [JObj [(str ''id'', JStr (str ''s3'')), (str ''_id'', JStr (str ''s3'')),
                    (str ''temperature'', JNum (Integer 22))],
              JObj [(str ''id'', JStr (str ''s2'')), (str ''_id'', JStr (str ''s2'')),
                    (str ''temperature'', JNum (Integer 21))],
              JObj [(str ''id'', JStr (str ''s1'')), (str ''_id'', JStr (str ''s1'')),
                    (str ''temperature'', JNum (Integer 20))]]
   \<and> get node \<lparr>db = Some example_store\<rparr>
        (skip 1 (limit 2 None (orderByDesc (str ''temperature'') (table (str ''sensors'')))))
       = Inr [JObj [(str ''id'', JStr (str ''s2'')), (str ''_id'', JStr (str ''s2'')),
                    (str ''temperature'', JNum (Integer 21))],
              JObj [(str ''id'', JStr (str ''s1'')), (str ''_id'', JStr (str ''s1'')),
                    (str ''temperature'', JNum (Integer 20))]]"
proof -
  let ?b = "orderByDesc (str ''temperature'') (table (str ''sensors'')) :: number CosmosQueryBuilder"
  let ?D = "\<lparr>db = Some example_store\<rparr>"
  have rows: "get node ?D (?b\<lparr>limitCount := None, offsetCount := 0\<rparr>)
       = Inr [JObj [(str ''id'', JStr (str ''s3'')), (str ''_id'', JStr (str ''s3'')),
                    (str ''temperature'', JNum (Integer 22))],
              JObj [(str ''id'', JStr (str ''s2'')), (str ''_id'', JStr (str ''s2'')),
                    (str ''temperature'', JNum (Integer 21))],
              JObj [(str ''id'', JStr (str ''s1'')), (str ''_id'', JStr (str ''s1'')),
                    (str ''temperature'', JNum (Integer 20))]]"
    by (simp add: example_eval)
  have n: "(0::int) < 2" and k: "(0::int) \<le> 1" by simp_all
  from pagination [OF n k rows] rows show ?thesis by simp
qed

subsection \<open>Evaluating the cipher\<close>

lemmas aes_eval =
  aes_256_cbc_cipher_def aes_256_cbc_decipher_def pkcs7_pad_def pkcs7_unpad_def key_expansion_def
  upt_rec next_word_def xor_bytes_def sub_byte_def sbox_def inv_sbox_def aes_cipher_def
  aes_inv_cipher_def aes_round_def aes_inv_round_def mix_columns_def inv_mix_columns_def
  shift_rows_def inv_shift_rows_def xtime_def mul9_def mul11_def mul13_def mul14_def Let_def

lemmas codec_eval =
  encrypt_def decrypt_def decrypt_try_def node_def default_key_def other_key_def example_iv_def
  hex_encode_def hex_digit_def hex_value_def utf8_of_code_point_def utf16_of_code_point_def
  between_bytes_def is_high_surrogate_def is_low_surrogate_def str_def

subsection \<open>Decryption\<close>

lemma decrypt_total: "\<exists>out. decrypt R x = Inr out"
  by (cases x) (auto simp: decrypt_def split: sum.splits)

lemma decrypt_undecryptable: "undecryptable R x \<Longrightarrow> decrypt R x = Inr x"
  by (cases x) (auto simp: decrypt_def undecryptable_def split: sum.splits)

lemma refused_iv_undecryptable:
  assumes "\<forall>key data. isl (decipher R key (hex_decode (hd (split 0x3A s))) data)"
  shows "undecryptable R (JStr s)"
proof -
  from assms have "isl (decipher R (SECRET_KEY R) (hex_decode (hd (split 0x3A s)))
      (hex_decode (join 0x3A (tl (split 0x3A s)))))"
    by blast
  then have "isl (decrypt_try R s)"
    by (auto simp: decrypt_try_def Let_def split: sum.splits)
  then show ?thesis by (simp add: undecryptable_def)
qed

lemma example_encrypt:
  "encrypt (node\<lparr>SECRET_KEY := other_key\<rparr>) example_iv (JStr (str ''sensor-55659855''))
     = Inr (JStr (str ''000102030405060708090a0b0c0d0e0f:5f50a62907b4300583897ce15e1b83d8''))"
  by (simp add: codec_eval aes_eval)

lemma example_decrypt:
  "decrypt node (JStr (str ''000102030405060708090a0b0c0d0e0f:5f50a62907b4300583897ce15e1b83d8''))
     = Inr (JStr [15, 88, 115, 69, 100, 110, 55, 6, 27, 24, 37, 15, 26, 49, 63])"
  by (simp add: codec_eval aes_eval)

lemma example_undecryptable:
  "undecryptable node (JStr (str ''000102030405060708090a0b0c0d0e0f:014d96042dbab54e9f7fa4deef41389b''))"
  by (simp add: undecryptable_def codec_eval aes_eval)

text \<open>
  C2, as amended. \<open>decrypt\<close> never raises. It returns its input unchanged for every
  input that is not a string, for every string without a colon, and for every string on
  which creating the decipher or deciphering throws; that is the case whenever the runtime
  refuses the initialization vector that the text before the first colon decodes to. (A
  ciphertext made with another key is returned unchanged only when its padding is found
  wrong.)
\<close>

theorem decrypt_fail_open:
  "(\<exists>out. decrypt R x = Inr out)
   \<and> (undecryptable R x \<longrightarrow> decrypt R x = Inr x)
   \<and> ((\<forall>key data. isl (decipher R key (hex_decode (hd (split 0x3A s))) data))
        \<longrightarrow> undecryptable R (JStr s))"
  using decrypt_total decrypt_undecryptable refused_iv_undecryptable by blast

theorem decrypt_fail_open_witness:
  "undecryptable node (JNum (Integer 5)) \<and> decrypt node (JNum (Integer 5)) = Inr (JNum (Integer 5))
   \<and> undecryptable node (JStr (str ''hello'')) \<and> decrypt node (JStr (str ''hello'')) = Inr (JStr (str ''hello''))
   \<and> (\<forall>key data. isl (decipher node key (hex_decode (hd (split 0x3A (str ''12:30'')))) data))
   \<and> decrypt node (JStr (str ''12:30'')) = Inr (JStr (str ''12:30''))
   \<and> undecryptable node
        (JStr (str ''000102030405060708090a0b0c0d0e0f:014d96042dbab54e9f7fa4deef41389b''))
   \<and> decrypt node (JStr (str ''000102030405060708090a0b0c0d0e0f:014d96042dbab54e9f7fa4deef41389b''))
       = Inr (JStr (str ''000102030405060708090a0b0c0d0e0f:014d96042dbab54e9f7fa4deef41389b''))"
proof -
  have 1: "undecryptable node (JNum (Integer 5))"
    by (simp add: undecryptable_def)
  have 2: "undecryptable node (JStr (str ''hello''))"
    by (simp add: undecryptable_def str_def)
  have 3: "\<forall>key data. isl (decipher node key (hex_decode (hd (split 0x3A (str ''12:30'')))) data)"
    by (simp add: node_def aes_256_cbc_decipher_def str_def hex_value_def)
  note 4 = example_undecryptable
  from decrypt_fail_open [of node "JNum (Integer 5)" "[]"]
    decrypt_fail_open [of node "JStr (str ''hello'')" "[]"]
    decrypt_fail_open [of node "JStr (str ''12:30'')" "str ''12:30''"]
    decrypt_fail_open [of node
      "JStr (str ''000102030405060708090a0b0c0d0e0f:014d96042dbab54e9f7fa4deef41389b'')" "[]"]
    1 2 3 4
  show ?thesis by blast
qed

text \<open>
  C2 as stated fails: the text \<open>sensor-55659855\<close>, encrypted with the key of
  \<open>DB_ENCRYPTION_KEY=other-key\<close>, is a ciphertext made with a different key, and
  \<open>decrypt\<close> with the default key returns 15 other characters for it, not the input.
\<close>

theorem decrypt_fail_open_counterexample:
  "encrypt (node\<lparr>SECRET_KEY := other_key\<rparr>) example_iv (JStr (str ''sensor-55659855''))
     = Inr (JStr (str ''000102030405060708090a0b0c0d0e0f:5f50a62907b4300583897ce15e1b83d8''))
   \<and> decrypt node (JStr (str ''000102030405060708090a0b0c0d0e0f:5f50a62907b4300583897ce15e1b83d8''))
     = Inr (JStr [15, 88, 115, 69, 100, 110, 55, 6, 27, 24, 37, 15, 26, 49, 63])
   \<and> JStr [15, 88, 115, 69, 100, 110, 55, 6, 27, 24, 37, 15, 26, 49, 63]
     \<noteq> (JStr (str ''000102030405060708090a0b0c0d0e0f:5f50a62907b4300583897ce15e1b83d8'') :: number jsvalue)"
  using example_encrypt example_decrypt by (simp add: str_def)

subsection \<open>Numbers after decryption\<close>

lemma decrypt_property_total: "\<exists>v'. decrypt_property R key v = Inr v'"
proof (cases v)
  case (JStr s)
  obtain d where "decrypt R (JStr s) = Inr d"
    using decrypt_total by blast
  with JStr show ?thesis
    by (simp add: decrypt_property_def)
qed (simp_all add: decrypt_property_def)

lemma decrypt_properties_lookup:
  "\<exists>row'. decrypt_properties R row = Inr row'
     \<and> (\<forall>key v. map_of row key = Some v \<longrightarrow>
            (\<exists>v'. decrypt_property R key v = Inr v' \<and> map_of row' key = Some v'))"
proof (induction row)
  case Nil
  then show ?case by simp
next
  case (Cons entry row)
  obtain k v where entry: "entry = (k, v)"
    by (cases entry)
  obtain v' where v': "decrypt_property R k v = Inr v'"
    using decrypt_property_total by blast
  from Cons.IH obtain row' where
    row': "decrypt_properties R row = Inr row'"
    and rest: "\<And>key v. map_of row key = Some v \<Longrightarrow>
                 \<exists>v'. decrypt_property R key v = Inr v' \<and> map_of row' key = Some v'"
    by blast
  have "decrypt_properties R (entry # row) = Inr ((k, v') # row')"
    by (simp add: entry v' row')
  moreover have "\<exists>w'. decrypt_property R key w = Inr w' \<and> map_of ((k, v') # row') key = Some w'"
    if "map_of (entry # row) key = Some w" for key w
    using that v' rest [of key w] by (auto simp: entry split: if_splits)
  ultimately show ?case by blast
qed

lemma decrypt_changes_colon:
  assumes "decrypt R (JStr s) = Inr d" and "d \<noteq> JStr s"
  shows "0x3A \<in> set s"
  using assms by (auto simp: decrypt_def split: if_splits)

lemma decrypt_phone:
  "decrypt node (JStr (str ''000102030405060708090a0b0c0d0e0f:7cfcda366f08e51e9fb9a0c66bd07ad3''))
     = Inr (JStr (str ''42''))"
  by (simp add: codec_eval aes_eval)

lemma decrypt_name:
  "decrypt node (JStr (str ''000102030405060708090a0b0c0d0e0f:9b3b9f534cd09079375a4bb4bc37d9da''))
     = Inr (JStr (str ''hello''))"
  by (simp add: codec_eval aes_eval)

text \<open>
  C9. For every field of a row, other than the identifier \<open>_id\<close> (which the read path
  never decrypts), whose stored value is a string that decryption changes: the row that
  \<open>_decryptRow\<close> returns has under this field the number \<open>Number(decrypted)\<close> when that
  is not \<open>NaN\<close>, and the decrypted string otherwise.
\<close>

theorem numeric_coercion:
  assumes "map_of row key = Some (JStr s)" and "key \<noteq> str ''_id''"
    and "decrypt R (JStr s) = Inr d" and "d \<noteq> JStr s"
  shows "\<exists>row'. decryptRow R (JObj row) = Inr (JObj row')
           \<and> map_of row' key = Some (if isNaN R (Number R d) then d else JNum (Number R d))"
proof -
  obtain row' where
    row': "decrypt_properties R row = Inr row'"
    and lookup: "\<And>key v. map_of row key = Some v \<Longrightarrow>
                 \<exists>v'. decrypt_property R key v = Inr v' \<and> map_of row' key = Some v'"
    using decrypt_properties_lookup by blast
  from lookup [OF assms(1)] obtain v' where
    v': "decrypt_property R key (JStr s) = Inr v'" and found: "map_of row' key = Some v'"
    by blast
  have "0x3A \<in> set s"
    using assms(3,4) by (rule decrypt_changes_colon)
  then have "decrypt_property R key (JStr s)
      = Inr (if isNaN R (Number R d) then d else JNum (Number R d))"
    using assms(2,3,4) by (simp add: decrypt_property_def)
  with v' found have "map_of row' key = Some (if isNaN R (Number R d) then d else JNum (Number R d))"
    by simp
  moreover have "decryptRow R (JObj row) = Inr (JObj row')"
    by (simp add: decryptRow_def row')
  ultimately show ?thesis by blast
qed

theorem numeric_coercion_witness:
  "map_of user_row (str ''phone'')
     = Some (JStr (str ''000102030405060708090a0b0c0d0e0f:7cfcda366f08e51e9fb9a0c66bd07ad3''))
   \<and> str ''phone'' \<noteq> str ''_id''
   \<and> decrypt node (JStr (str ''000102030405060708090a0b0c0d0e0f:7cfcda366f08e51e9fb9a0c66bd07ad3''))
       = Inr (JStr (str ''42''))
   \<and> JStr (str ''42'')
       \<noteq> (JStr (str ''000102030405060708090a0b0c0d0e0f:7cfcda366f08e51e9fb9a0c66bd07ad3'') :: number jsvalue)
   \<and> (\<exists>row'. decryptRow node (JObj user_row) = Inr (JObj row')
         \<and> map_of row' (str ''phone'') = Some (JNum (Integer 42)))
   \<and> map_of user_row (str ''name'')
     = Some (JStr (str ''000102030405060708090a0b0c0d0e0f:9b3b9f534cd09079375a4bb4bc37d9da''))
   \<and> (\<exists>row'. decryptRow node (JObj user_row) = Inr (JObj row')
         \<and> map_of row' (str ''name'') = Some (JStr (str ''hello'')))"
proof -
  have phone: "map_of user_row (str ''phone'')
     = Some (JStr (str ''000102030405060708090a0b0c0d0e0f:7cfcda366f08e51e9fb9a0c66bd07ad3''))"
    by (simp add: user_row_def str_def)
  have name: "map_of user_row (str ''name'')
     = Some (JStr (str ''000102030405060708090a0b0c0d0e0f:9b3b9f534cd09079375a4bb4bc37d9da''))"
    by (simp add: user_row_def str_def)
  have keys: "str ''phone'' \<noteq> str ''_id''" "str ''name'' \<noteq> str ''_id''"
    by (simp_all add: str_def)
  have changed: "JStr (str ''42'')
       \<noteq> (JStr (str ''000102030405060708090a0b0c0d0e0f:7cfcda366f08e51e9fb9a0c66bd07ad3'') :: number jsvalue)"
    "JStr (str ''hello'')
       \<noteq> (JStr (str ''000102030405060708090a0b0c0d0e0f:9b3b9f534cd09079375a4bb4bc37d9da'') :: number jsvalue)"
    by (simp_all add: str_def)
  have numbers: "Number node (JStr (str ''42'')) = Integer 42" "isNaN node (Integer 42) = False"
    "Number node (JStr (str ''hello'')) = NaN" "isNaN node NaN = True"
    by (simp_all add: node_def str_def)
  from numeric_coercion [OF phone keys(1) decrypt_phone changed(1)]
    numeric_coercion [OF name keys(2) decrypt_name changed(2)]
  show ?thesis
    unfolding numbers using phone name keys(1) decrypt_phone changed(1) by simp
qed

subsection \<open>Encryption and decryption\<close>





































end
